theory Spec2Isabelle
  imports Complex_Main "HOL-Library.Product_Lexorder"
begin

section \<open>Values and errors\<close>

text \<open>
  The metric functions of \<^verbatim>\<open>resources/metric.py\<close> take a one-dimensional numpy array of
  point values and return a float. A data vector is a list of reals (finite values; the
  rounding of float64 is not modelled). A returned float is an \<open>npfloat\<close>: numpy's float
  division does not raise on a zero divisor, it returns an infinity or nan, and the
  reductions of an empty array return nan. A Python exception is a value of \<open>error\<close>.
\<close>

datatype error = ValueError | KeyError | AttributeError | ZeroDivisionError

datatype npfloat = Finite real | PosInf | NegInf | NaN

type_synonym metric_result = "error + npfloat"

definition sentinel :: real where
  "sentinel = - 9999"

text \<open>
  \<^verbatim>\<open>a / b\<close> on two float64 scalars. A finite quotient is the real quotient; a zero divisor
  gives nan for \<open>0 / 0\<close> and an infinity with the sign of the dividend otherwise (the sign
  of a negative zero divisor is not modelled).
\<close>

fun np_divide :: "npfloat \<Rightarrow> npfloat \<Rightarrow> npfloat" where
  "np_divide NaN _ = NaN"
| "np_divide _ NaN = NaN"
| "np_divide (Finite a) (Finite b) =
     (if b = 0 then (if a = 0 then NaN else if 0 < a then PosInf else NegInf)
      else Finite (a / b))"
| "np_divide (Finite a) PosInf = Finite 0"
| "np_divide (Finite a) NegInf = Finite 0"
| "np_divide PosInf (Finite b) = (if 0 \<le> b then PosInf else NegInf)"
| "np_divide NegInf (Finite b) = (if 0 \<le> b then NegInf else PosInf)"
| "np_divide PosInf PosInf = NaN"
| "np_divide PosInf NegInf = NaN"
| "np_divide NegInf PosInf = NaN"
| "np_divide NegInf NegInf = NaN"

section \<open>The numpy reductions the metrics call\<close>

text \<open>\<^verbatim>\<open>np.max\<close> and \<^verbatim>\<open>np.min\<close> raise ValueError on an empty array.\<close>

fun np_max :: "real list \<Rightarrow> error + real" where
  "np_max [] = Inl ValueError"
| "np_max (x # xs) = Inr (fold max xs x)"

fun np_min :: "real list \<Rightarrow> error + real" where
  "np_min [] = Inl ValueError"
| "np_min (x # xs) = Inr (fold min xs x)"

text \<open>The arithmetic mean of a nonempty vector; \<^verbatim>\<open>np.mean\<close> of an empty array is nan.\<close>

definition mean :: "real list \<Rightarrow> real" where
  "mean data = sum_list data / real (length data)"

definition np_mean :: "real list \<Rightarrow> npfloat" where
  "np_mean data = (if data = [] then NaN else Finite (mean data))"

text \<open>\<^verbatim>\<open>np.var\<close> is the population variance (ddof = 0), \<^verbatim>\<open>np.std\<close> its square root.\<close>

definition variance :: "real list \<Rightarrow> real" where
  "variance data = mean (map (\<lambda>x. (x - mean data)\<^sup>2) data)"


definition np_std :: "real list \<Rightarrow> npfloat" where
  "np_std data = (if data = [] then NaN else Finite (sqrt (variance data)))"



text \<open>\<^verbatim>\<open>np.argmax\<close>: the index of the first occurrence of the maximum.\<close>

fun first_index :: "'a \<Rightarrow> 'a list \<Rightarrow> nat" where
  "first_index v [] = 0"
| "first_index v (x # xs) = (if x = v then 0 else Suc (first_index v xs))"

fun np_argmax :: "('a::linorder) list \<Rightarrow> error + nat" where
  "np_argmax [] = Inl ValueError"
| "np_argmax (x # xs) = Inr (first_index (fold max xs x) (x # xs))"

text \<open>
  \<^verbatim>\<open>np.histogram(data, bins = nbins, density = False)\<close> on data with \<open>mn < mx\<close>: \<open>nbins\<close>
  bins of equal width over \<open>[mn, mx]\<close>, each closed on the left and open on the right,
  the last one closed on both sides. The result here is the list of counts.
\<close>

definition bin_of :: "real \<Rightarrow> real \<Rightarrow> nat \<Rightarrow> real \<Rightarrow> nat" where
  "bin_of mn mx nbins x =
     (if x = mx then nbins - 1 else nat \<lfloor>(x - mn) / (mx - mn) * real nbins\<rfloor>)"

definition np_histogram :: "real list \<Rightarrow> real \<Rightarrow> real \<Rightarrow> nat \<Rightarrow> nat list" where
  "np_histogram data mn mx nbins =
     map (\<lambda>b. length (filter (\<lambda>x. bin_of mn mx nbins x = b) data)) [0..<nbins]"

section \<open>The metrics\<close>

definition m_count :: "real list \<Rightarrow> nat" where
  "m_count data = length data"


text \<open>
  \<^verbatim>\<open>m_mode\<close>. The histogram is computed and bound to \<^verbatim>\<open>bins\<close>, which is not read again:
  \<^verbatim>\<open>thebin = np.argmax(data, keepdims=False)\<close> takes the index of the largest element of
  the data array.
\<close>

definition m_mode :: "real list \<Rightarrow> metric_result" where
  "m_mode data =
     (let nbins = (64::nat) in
      case np_max data of Inl e \<Rightarrow> Inl e | Inr maxv \<Rightarrow>
     (case np_min data of Inl e \<Rightarrow> Inl e | Inr minv \<Rightarrow>
      if minv = maxv then Inr (Finite minv)
      else
        let bins = np_histogram data minv maxv nbins in
       (case np_argmax data of Inl e \<Rightarrow> Inl e | Inr thebin \<Rightarrow>
        Inr (Finite (minv + real thebin * (maxv - minv) / real (nbins - 1))))))"

text \<open>
  The mode as the specification words it: the height of the highest-count bin of the
  64-bin histogram, \<open>min + argmax(counts) * (max - min) / (nbins - 1)\<close>, and \<open>min\<close> when
  \<open>min = max\<close>.
\<close>

definition m_mode_spec :: "real list \<Rightarrow> metric_result" where
  "m_mode_spec data =
     (let nbins = (64::nat) in
      case np_max data of Inl e \<Rightarrow> Inl e | Inr maxv \<Rightarrow>
     (case np_min data of Inl e \<Rightarrow> Inl e | Inr minv \<Rightarrow>
      if minv = maxv then Inr (Finite minv)
      else
       (case np_argmax (np_histogram data minv maxv nbins) of Inl e \<Rightarrow> Inl e
        | Inr thebin \<Rightarrow>
            Inr (Finite (minv + real thebin * (maxv - minv) / real (nbins - 1))))))"






definition m_cv :: "real list \<Rightarrow> metric_result" where
  "m_cv data = Inr (np_divide (np_std data) (np_mean data))"


text \<open>
  \<^verbatim>\<open>scipy.stats.skew\<close> and \<^verbatim>\<open>scipy.stats.kurtosis\<close> with their default arguments
  (library functions, outside the repository): the biased sample skewness
  \<open>m3 / m2 ** 1.5\<close> and the excess kurtosis \<open>m4 / m2 ** 2 - 3\<close> of the central moments.
  With a second moment of zero both quotients are \<open>0 / 0\<close>, for which the library
  returns nan.
\<close>

definition moment :: "nat \<Rightarrow> real list \<Rightarrow> real" where
  "moment k data = mean (map (\<lambda>x. (x - mean data) ^ k) data)"

definition stats_skew :: "real list \<Rightarrow> npfloat" where
  "stats_skew data =
     (let m2 = moment 2 data; m3 = moment 3 data
      in if data = [] \<or> m2 = 0 then NaN else Finite (m3 / m2 powr (3 / 2)))"

definition stats_kurtosis :: "real list \<Rightarrow> npfloat" where
  "stats_kurtosis data =
     (let m2 = moment 2 data; m4 = moment 4 data
      in if data = [] \<or> m2 = 0 then NaN else Finite (m4 / m2\<^sup>2 - 3))"

definition m_skewness :: "real list \<Rightarrow> metric_result" where
  "m_skewness data =
     (if length data < 4 then Inr (Finite sentinel) else Inr (stats_skew data))"

definition m_kurtosis :: "real list \<Rightarrow> metric_result" where
  "m_kurtosis data =
     (if length data < 4 then Inr (Finite sentinel) else Inr (stats_kurtosis data))"

text \<open>
  The L-moment metrics call \<^verbatim>\<open>lmom4\<close> of \<^verbatim>\<open>resources/lmom4.py\<close>, which returns the first
  four L-moments of the data. That module is not among the sources at hand, so the
  function is a parameter \<open>lmom4\<close> of each metric, returning the four values \<open>l[0]\<close> to
  \<open>l[3]\<close>.
\<close>

type_synonym lmoments = "real \<times> real \<times> real \<times> real"

definition m_l1 :: "real list \<Rightarrow> metric_result" where
  "m_l1 data = (if length data < 4 then Inr (Finite sentinel) else Inr (np_mean data))"

definition m_l2 :: "(real list \<Rightarrow> lmoments) \<Rightarrow> real list \<Rightarrow> metric_result" where
  "m_l2 lmom4 data =
     (if length data < 4 then Inr (Finite sentinel)
      else case lmom4 data of (l0, l1, l2, l3) \<Rightarrow> Inr (Finite l1))"

definition m_l3 :: "(real list \<Rightarrow> lmoments) \<Rightarrow> real list \<Rightarrow> metric_result" where
  "m_l3 lmom4 data =
     (if length data < 4 then Inr (Finite sentinel)
      else case lmom4 data of (l0, l1, l2, l3) \<Rightarrow> Inr (Finite l2))"

definition m_l4 :: "(real list \<Rightarrow> lmoments) \<Rightarrow> real list \<Rightarrow> metric_result" where
  "m_l4 lmom4 data =
     (if length data < 4 then Inr (Finite sentinel)
      else case lmom4 data of (l0, l1, l2, l3) \<Rightarrow> Inr (Finite l3))"

definition m_lcv :: "(real list \<Rightarrow> lmoments) \<Rightarrow> real list \<Rightarrow> metric_result" where
  "m_lcv lmom4 data =
     (if length data < 4 then Inr (Finite sentinel)
      else case lmom4 data of (l0, l1, l2, l3) \<Rightarrow>
        if l0 = 0 then Inr (Finite sentinel) else Inr (Finite (l1 / l0)))"

definition m_lskewness :: "(real list \<Rightarrow> lmoments) \<Rightarrow> real list \<Rightarrow> metric_result" where
  "m_lskewness lmom4 data =
     (if length data < 4 then Inr (Finite sentinel)
      else case lmom4 data of (l0, l1, l2, l3) \<Rightarrow>
        if l1 = 0 then Inr (Finite sentinel) else Inr (Finite (l2 / l1)))"

definition m_lkurtosis :: "(real list \<Rightarrow> lmoments) \<Rightarrow> real list \<Rightarrow> metric_result" where
  "m_lkurtosis lmom4 data =
     (if length data < 4 then Inr (Finite sentinel)
      else case lmom4 data of (l0, l1, l2, l3) \<Rightarrow>
        if l1 = 0 then Inr (Finite sentinel) else Inr (Finite (l3 / l1)))"





section \<open>Facts about the reductions\<close>

lemma np_max_eq: "data \<noteq> [] \<Longrightarrow> np_max data = Inr (Max (set data))"
  by (cases data) (simp_all add: Max.set_eq_fold del: set_simps)

lemma np_min_eq: "data \<noteq> [] \<Longrightarrow> np_min data = Inr (Min (set data))"
  by (cases data) (simp_all add: Min.set_eq_fold del: set_simps)


lemma Max_replicate: "Max (set (replicate (Suc n) c)) = (c::real)"
  by (simp del: replicate.simps)

lemma Min_replicate: "Min (set (replicate (Suc n) c)) = (c::real)"
  by (simp del: replicate.simps)




lemma sum_list_squares_nonneg: "0 \<le> (\<Sum>x\<leftarrow>xs. (x - m)\<^sup>2)" for m :: real
  by (induction xs) auto

lemma variance_nonneg: "0 \<le> variance data"
  unfolding variance_def mean_def by (simp add: sum_list_squares_nonneg)





section \<open>Mode\<close>

text \<open>
  C1. Claimed: for data with \<open>min \<noteq> max\<close>, \<open>m_mode\<close> returns the height of the
  highest-count bin of the 64-bin histogram, \<open>min + argmax(counts) * (max - min) / 63\<close>.
  On the data \<open>[1, 1, 1, 2]\<close> the histogram has three points in bin 0 and one in bin 63,
  so that height is \<open>1\<close>; \<open>m_mode\<close> takes the index of the largest data value, \<open>3\<close>,
  and returns \<open>1 + 3 / 63 = 22 / 21\<close>.
\<close>

theorem m_mode_argmax_of_data:
  "m_mode [1, 1, 1, 2] = Inr (Finite (22 / 21)) \<and> m_mode_spec [1, 1, 1, 2] = Inr (Finite 1)"
proof
  show "m_mode [1, 1, 1, 2] = Inr (Finite (22 / 21))"
    by (simp add: m_mode_def Let_def)
  show "m_mode_spec [1, 1, 1, 2] = Inr (Finite 1)"
    by code_simp
qed

text \<open>The other half of C1 holds: with \<open>min = max\<close> the mode is that value.\<close>

lemma m_mode_constant: "m_mode (replicate (Suc n) c) = Inr (Finite c)"
  by (simp add: m_mode_def np_max_eq np_min_eq Max_replicate Min_replicate
      del: replicate.simps set_replicate)

section \<open>Profile area\<close>




section \<open>Small samples\<close>

text \<open>
  C6, as claimed, fails in its second half: four equal values have length 4 and a second
  central moment of zero, so the skewness \<open>m3 / m2 ** 1.5\<close> that \<open>m_skewness\<close> passes on
  is nan, not a finite value.
\<close>

theorem m_skewness_constant_not_finite:
  "4 \<le> length [1, 1, 1, 1 :: real] \<and> m_skewness [1, 1, 1, 1] = Inr NaN"
  by (simp add: m_skewness_def stats_skew_def moment_def mean_def)

text \<open>
  C6 as amended. For every vector of length less than 4, each of \<open>m_skewness\<close>,
  \<open>m_kurtosis\<close>, \<open>m_l1\<close>, \<open>m_l2\<close>, \<open>m_l3\<close>, \<open>m_l4\<close>, \<open>m_lcv\<close>, \<open>m_lskewness\<close> and
  \<open>m_lkurtosis\<close> returns the sentinel; for every vector of length at least 4,
  \<open>m_skewness\<close> and \<open>m_kurtosis\<close> return the library's skewness and kurtosis of the
  data unchanged (not the sentinel branch).
\<close>

theorem small_sample_sentinel:
  "(length data < 4 \<longrightarrow>
      m_skewness data = Inr (Finite sentinel) \<and> m_kurtosis data = Inr (Finite sentinel) \<and>
      m_l1 data = Inr (Finite sentinel) \<and> m_l2 lmom4 data = Inr (Finite sentinel) \<and>
      m_l3 lmom4 data = Inr (Finite sentinel) \<and> m_l4 lmom4 data = Inr (Finite sentinel) \<and>
      m_lcv lmom4 data = Inr (Finite sentinel) \<and>
      m_lskewness lmom4 data = Inr (Finite sentinel) \<and>
      m_lkurtosis lmom4 data = Inr (Finite sentinel)) \<and>
   (4 \<le> length data \<longrightarrow>
      m_skewness data = Inr (stats_skew data) \<and> m_kurtosis data = Inr (stats_kurtosis data))"
  by (simp add: m_skewness_def m_kurtosis_def m_l1_def m_l2_def m_l3_def m_l4_def m_lcv_def
      m_lskewness_def m_lkurtosis_def)

theorem small_sample_sentinel_witness:
  "length [1, 2, 3 :: real] < 4 \<and>
   m_skewness [1, 2, 3] = Inr (Finite sentinel) \<and> m_kurtosis [1, 2, 3] = Inr (Finite sentinel) \<and>
   m_l1 [1, 2, 3] = Inr (Finite sentinel) \<and>
   m_l2 (\<lambda>d. (0, 0, 0, 0)) [1, 2, 3] = Inr (Finite sentinel) \<and>
   m_lkurtosis (\<lambda>d. (0, 0, 0, 0)) [1, 2, 3] = Inr (Finite sentinel) \<and>
   4 \<le> length [1, 2, 3, 4 :: real] \<and>
   m_skewness [1, 2, 3, 4] = Inr (stats_skew [1, 2, 3, 4]) \<and>
   stats_skew [1, 2, 3, 4] = Finite 0"
proof -
  have a: "length [1, 2, 3 :: real] < 4" by simp
  have b: "4 \<le> length [1, 2, 3, 4 :: real]" by simp
  have c: "stats_skew [1, 2, 3, 4] = Finite 0"
    by (simp add: stats_skew_def moment_def mean_def power3_eq_cube power2_eq_square)
  show ?thesis
    using a b c small_sample_sentinel[of "[1, 2, 3]" "\<lambda>d. (0, 0, 0, 0)"]
      small_sample_sentinel[of "[1, 2, 3, 4]" "\<lambda>d. (0, 0, 0, 0)"]
    by blast
qed

section \<open>Constant cells\<close>



section \<open>Coefficient of variation\<close>

text \<open>
  C10. For every nonempty vector, \<open>m_cv\<close> returns the quotient of \<open>np.std(data)\<close> by
  \<open>np.mean(data)\<close>; when the mean is 0 the division is not guarded: the result is the
  float division's nan or infinity, and the sentinel is not returned.
\<close>

theorem m_cv_unguarded:
  assumes "data \<noteq> []"
  shows "m_cv data = Inr (np_divide (np_std data) (np_mean data)) \<and>
     (np_mean data = Finite 0 \<longrightarrow>
        m_cv data \<noteq> Inr (Finite sentinel) \<and> (m_cv data = Inr NaN \<or> m_cv data = Inr PosInf))"
  using assms variance_nonneg[of data]
  by (auto simp: m_cv_def np_std_def np_mean_def)

theorem m_cv_unguarded_witness:
  "[- 1, 1] \<noteq> ([]::real list) \<and> np_mean [- 1, 1] = Finite 0 \<and>
   m_cv [- 1, 1] = Inr (np_divide (np_std [- 1, 1]) (np_mean [- 1, 1])) \<and>
   m_cv [- 1, 1] = Inr PosInf"
proof -
  have a: "[- 1, 1] \<noteq> ([]::real list)" by simp
  have b: "np_mean [- 1, 1] = Finite 0" by (simp add: np_mean_def mean_def)
  have c: "m_cv [- 1, 1] \<noteq> Inr NaN"
    by (simp add: m_cv_def np_std_def np_mean_def mean_def variance_def)
  show ?thesis
    using a b c m_cv_unguarded[OF a] by blast
qed

end
